theory Spec2Isabelle
  imports Complex_Main "HOL-Library.Sublist" "HOL-Library.Multiset"
begin

section \<open>The WebSocket relay of backend/proxy.py\<close>

text \<open>
  The program is a relay between a client WebSocket and one fixed upstream WebSocket
  endpoint. Its three coroutines are embedded as functions from what the environment
  does (the messages the streams deliver, the answers to writes, the result of the
  upstream handshake, the order in which the event loop runs the two relay tasks) to the
  sequence of input and output actions the program performs.
\<close>

subsection \<open>Values, exceptions and actions\<close>

text \<open>
  What \<open>json.loads\<close> returns: \<open>None\<close>, a bool, an int, a float, a str, a list or a dict.
  A dict is kept as the list of its items (keys distinct, in insertion order). The float
  carries its value as a real number; no property below inspects it.
\<close>

datatype json =
    JNull
  | JBool bool
  | JInt int
  | JFloat real
  | JStr string
  | JArr "json list"
  | JObj "(string \<times> json) list"

text \<open>
  The parts of the Python library the program calls but does not define:
  \<open>json.loads\<close> (\<open>None\<close> when it raises), \<open>json.dumps\<close>, and the text \<open>str()\<close> gives for
  a value that is not a string (what an f-string inserts for it).
\<close>

record pylib =
  loads :: "string \<Rightarrow> json option"
  dumps :: "json \<Rightarrow> string"
  py_str :: "json \<Rightarrow> string"

text \<open>
  The round trip of the JSON library: what \<open>json.loads\<close> returns is re-encoded by
  \<open>json.dumps\<close> to a text that \<open>json.loads\<close> decodes to the same value.
\<close>

definition round_trip :: "pylib \<Rightarrow> bool" where
  "round_trip L = (\<forall>m d. loads L m = Some d \<longrightarrow> loads L (dumps L d) = Some d)"

text \<open>
  The exceptions that occur. All of them are subclasses of \<open>Exception\<close>;
  \<open>ConnectionClosedOK\<close> and \<open>ConnectionClosedError\<close> are the two subclasses of
  \<open>websockets.exceptions.ConnectionClosed\<close>.
\<close>

datatype exn =
    ConnectionClosedOK
  | ConnectionClosedError
  | TimeoutError
  | JSONDecodeError
  | TypeError
  | KeyError
  | OtherError string

fun is_ConnectionClosed :: "exn \<Rightarrow> bool" where
  "is_ConnectionClosed ConnectionClosedOK = True"
| "is_ConnectionClosed ConnectionClosedError = True"
| "is_ConnectionClosed _ = False"

text \<open>The two WebSocket connections of a session.\<close>

datatype endpoint = Client | Server

text \<open>
  The lines the program prints: \<open>New connection...\<close>, \<open>Error: e\<close>, the three lines
  starting \<open>Task error: e\<close> and the three lines starting \<open>Proxy connection error: e\<close>.
\<close>

datatype log = NewConnection | Error exn | TaskError exn | ProxyError exn

text \<open>
  The actions of a run, in the order they happen: a print, a message read from a
  connection, a message written to a connection, the call of \<open>websockets.connect\<close> with
  its URL and headers (and what the handshake gave: \<open>None\<close> is an open connection), a
  \<open>close\<close> of the client connection with its code and reason, and the exit of the
  \<open>async with\<close> block, which closes the upstream connection.
\<close>

datatype event =
    Print log
  | Recv endpoint string
  | Send endpoint string
  | Connect string "(string \<times> string) list" "exn option"
  | CloseClient nat string
  | ExitServer

text \<open>
  A run: the actions up to the return, the exception that escapes (if any), and the
  actions a task left running performs after the return.
\<close>

record run =
  trace :: "event list"
  raised :: "exn option"
  background :: "event list"

definition HOST :: string where
  "HOST = ''us-central1-aiplatform.googleapis.com''"

definition SERVICE_URL :: string where
  "SERVICE_URL =
     ''wss://'' @ HOST @ ''/ws/google.cloud.aiplatform.v1beta1.LlmBidiService/BidiGenerateContent''"

subsection \<open>proxy_task\<close>

text \<open>
  What the environment does to one relay direction: the messages the source yields, each
  with the answer the target gives if a write is attempted for it, and how the iteration
  over the source ends (\<open>None\<close>: the source closed normally and the iteration is
  exhausted; \<open>Some e\<close>: reading raised \<open>e\<close>).
\<close>

datatype send_result = SendOk | SendRaises exn

type_synonym script = "(string \<times> send_result) list \<times> exn option"

datatype flow = Continue | Break

text \<open>
  The body of the loop (the inner \<open>try\<close>): parse, re-encode and write; a
  \<open>ConnectionClosed\<close> leaves the loop, any other exception is printed.
\<close>

definition forward :: "pylib \<Rightarrow> endpoint \<Rightarrow> string \<Rightarrow> send_result \<Rightarrow> event list \<times> flow" where
  "forward L target message answer =
     (case (case loads L message of
              None \<Rightarrow> Inl JSONDecodeError
            | Some data \<Rightarrow>
                (case answer of
                   SendOk \<Rightarrow> Inr [Send target (dumps L data)]
                 | SendRaises e \<Rightarrow> Inl e)) of
        Inr evs \<Rightarrow> (evs, Continue)
      | Inl e \<Rightarrow> if is_ConnectionClosed e then ([], Break) else ([Print (Error e)], Continue))"

text \<open>The \<open>async for\<close> loop; its result is the exception that leaves it, if any.\<close>

fun relay_loop ::
  "pylib \<Rightarrow> endpoint \<Rightarrow> endpoint \<Rightarrow> (string \<times> send_result) list \<Rightarrow> exn option
     \<Rightarrow> event list \<times> exn option" where
  "relay_loop L source target [] ending = ([], ending)"
| "relay_loop L source target ((message, answer) # rest) ending =
     (case forward L target message answer of
        (evs, Break) \<Rightarrow> (Recv source message # evs, None)
      | (evs, Continue) \<Rightarrow>
          (case relay_loop L source target rest ending of
             (evs', r) \<Rightarrow> (Recv source message # evs @ evs', r)))"

text \<open>
  The whole coroutine (the outer \<open>try\<close>): a \<open>ConnectionClosed\<close> that leaves the loop
  is passed over, any other exception is printed.
\<close>

definition proxy_task ::
  "pylib \<Rightarrow> endpoint \<Rightarrow> endpoint \<Rightarrow> string \<Rightarrow> script \<Rightarrow> event list \<times> exn option" where
  "proxy_task L source_websocket target_websocket name s =
     (case relay_loop L source_websocket target_websocket (fst s) (snd s) of
        (evs, None) \<Rightarrow> (evs, None)
      | (evs, Some e) \<Rightarrow>
          if is_ConnectionClosed e then (evs, None) else (evs @ [Print (Error e)], None))"

subsection \<open>create_proxy\<close>

text \<open>
  A task, as the one awaiting it sees it: the actions it performs, and the exception
  it finishes with (\<open>None\<close> when it returns).
\<close>

type_synonym task = "event list \<times> exn option"

text \<open>
  \<open>asyncio.gather\<close> over two tasks, with \<open>return_exceptions\<close> left at \<open>False\<close>. The
  tasks run interleaved: the schedule says whose action comes next, \<open>True\<close> for the
  first task, and when it runs out the first task goes first. Without an exception the
  caller resumes when both tasks have finished. The first exception a task finishes
  with is raised to the caller, and the other task is not cancelled. The event loop
  delivers that exception a few iterations later, so the other task may still advance
  before the caller resumes: \<open>lag\<close> is the number of actions it performs in between;
  its remaining actions happen in the background. The result: the actions up to the
  point where the caller resumes, the exception raised to it, and the actions left to
  the background.
\<close>

fun gather :: "bool list \<Rightarrow> nat \<Rightarrow> task \<Rightarrow> task \<Rightarrow> event list \<times> exn option \<times> event list" where
  "gather sched lag ([], Some e) (ys, r2) = (take lag ys, Some e, drop lag ys)"
| "gather sched lag (x # xs, r1) ([], Some e) = (take lag (x # xs), Some e, drop lag (x # xs))"
| "gather sched lag ([], None) (ys, r2) = (ys, r2, [])"
| "gather sched lag (x # xs, r1) ([], None) = (x # xs, r1, [])"
| "gather [] lag (x # xs, r1) (y # ys, r2) =
     (case gather [] lag (xs, r1) (y # ys, r2) of (evs, r, bg) \<Rightarrow> (x # evs, r, bg))"
| "gather (b # bs) lag (x # xs, r1) (y # ys, r2) =
     (if b then (case gather bs lag (xs, r1) (y # ys, r2) of (evs, r, bg) \<Rightarrow> (x # evs, r, bg))
      else (case gather bs lag (x # xs, r1) (ys, r2) of (evs, r, bg) \<Rightarrow> (y # evs, r, bg)))"

text \<open>
  The \<open>try\<close> statement of \<open>create_proxy\<close> for a URL, the headers, the result of the
  handshake and the two tasks the \<open>async with\<close> block creates: a failed handshake is
  printed; after a successful one the inner \<open>try\<close> awaits \<open>gather\<close>, an exception that
  \<open>gather\<close> raises is printed, and leaving the block closes the upstream connection.
\<close>

definition proxy_session ::
  "string \<Rightarrow> (string \<times> string) list \<Rightarrow> exn option \<Rightarrow> bool list \<Rightarrow> nat \<Rightarrow> task \<Rightarrow> task \<Rightarrow> run" where
  "proxy_session url headers handshake sched lag client_to_server server_to_client =
     (let dial = Connect url headers handshake
      in case handshake of
           Some e \<Rightarrow> \<lparr>trace = [dial, Print (ProxyError e)], raised = None, background = []\<rparr>
         | None \<Rightarrow>
             (case gather sched lag client_to_server server_to_client of
                (evs, None, bg) \<Rightarrow>
                  \<lparr>trace = dial # evs @ [ExitServer], raised = None, background = bg\<rparr>
              | (evs, Some e, bg) \<Rightarrow>
                  \<lparr>trace = dial # evs @ [Print (TaskError e), ExitServer],
                   raised = None, background = bg\<rparr>))"

text \<open>
  What the environment does to one session: the result of the upstream handshake, the
  scripts of the two directions, the schedule of the two tasks, and the lag with which
  the exception of a task reaches the one awaiting it.
\<close>

record session =
  connect_result :: "exn option"
  client_script :: script
  server_script :: script
  schedule :: "bool list"
  lag :: nat

text \<open>What the f-string \<open>f"Bearer {bearer_token}"\<close> inserts: a str as it is.\<close>

definition format_value :: "pylib \<Rightarrow> json \<Rightarrow> string" where
  "format_value L v = (case v of JStr s \<Rightarrow> s | _ \<Rightarrow> py_str L v)"

definition create_proxy :: "pylib \<Rightarrow> session \<Rightarrow> json \<Rightarrow> run" where
  "create_proxy L S bearer_token =
     (let headers = [(''Content-Type'', ''application/json''),
                     (''Authorization'', ''Bearer '' @ format_value L bearer_token)]
      in proxy_session SERVICE_URL headers (connect_result S) (schedule S) (lag S)
           (proxy_task L Client Server ''Client->Server'' (client_script S))
           (proxy_task L Server Client ''Server->Client'' (server_script S)))"

subsection \<open>handle_client\<close>

text \<open>
  What happens to the first \<open>recv\<close>: a message arrives after some seconds, or the read
  raises after some seconds, or nothing ever happens. \<open>asyncio.wait_for\<close> raises
  \<open>TimeoutError\<close> when the timeout passes first.
\<close>

datatype first_recv = Arrives real string | Fails real exn | Never

fun wait_for :: "first_recv \<Rightarrow> real \<Rightarrow> exn + string" where
  "wait_for (Arrives t m) timeout = (if t \<le> timeout then Inr m else Inl TimeoutError)"
| "wait_for (Fails t e) timeout = (if t \<le> timeout then Inl e else Inl TimeoutError)"
| "wait_for Never timeout = Inl TimeoutError"

text \<open>
  Python's \<open>key in value\<close> for a str key: the keys of a dict, the substrings of a str,
  the elements of a list; any other value is not iterable.
\<close>

fun contains :: "json \<Rightarrow> string \<Rightarrow> exn + bool" where
  "contains (JObj kvs) k = Inr (k \<in> fst ` set kvs)"
| "contains (JStr s) k = Inr (sublist k s)"
| "contains (JArr xs) k = Inr (JStr k \<in> set xs)"
| "contains _ k = Inl TypeError"

text \<open>
  Python's \<open>value[key]\<close> for a str key: the entry of a dict; a str and a list take
  integer indices only, and the other values are not subscriptable.
\<close>

fun getitem :: "json \<Rightarrow> string \<Rightarrow> exn + json" where
  "getitem (JObj kvs) k = (case map_of kvs k of Some v \<Rightarrow> Inr v | None \<Rightarrow> Inl KeyError)"
| "getitem _ k = Inl TypeError"

text \<open>The \<open>try\<close> block of the handler: the actions, the exception, the background.\<close>

definition authenticate ::
  "pylib \<Rightarrow> first_recv \<Rightarrow> session \<Rightarrow> event list \<times> exn option \<times> event list" where
  "authenticate L first S =
     (case wait_for first 5 of
        Inl e \<Rightarrow> ([], Some e, [])
      | Inr auth_message \<Rightarrow>
          (case loads L auth_message of
             None \<Rightarrow> ([Recv Client auth_message], Some JSONDecodeError, [])
           | Some auth_data \<Rightarrow>
               (case contains auth_data ''bearer_token'' of
                  Inl e \<Rightarrow> ([Recv Client auth_message], Some e, [])
                | Inr found \<Rightarrow>
                    if found then
                      (case getitem auth_data ''bearer_token'' of
                         Inl e \<Rightarrow> ([Recv Client auth_message], Some e, [])
                       | Inr bearer_token \<Rightarrow>
                           (let r = create_proxy L S bearer_token
                            in (Recv Client auth_message # trace r, raised r, background r)))
                    else
                      ([Recv Client auth_message, CloseClient 1008 ''Bearer token missing''],
                       None, []))))"

definition handle_client :: "pylib \<Rightarrow> first_recv \<Rightarrow> session \<Rightarrow> run" where
  "handle_client L first S =
     (case authenticate L first S of
        (evs, None, bg) \<Rightarrow>
          \<lparr>trace = Print NewConnection # evs, raised = None, background = bg\<rparr>
      | (evs, Some e, bg) \<Rightarrow>
          \<lparr>trace = Print NewConnection # evs @ [Print (Error e), CloseClient 1011 ''Internal error''],
           raised = None, background = bg\<rparr>)"

subsection \<open>Observations on a run\<close>

text \<open>The messages written to a connection, and those read from it, in order.\<close>

fun written :: "endpoint \<Rightarrow> event list \<Rightarrow> string list" where
  "written p [] = []"
| "written p (Send q m # evs) = (if q = p then m # written p evs else written p evs)"
| "written p (e # evs) = written p evs"

fun read_from :: "endpoint \<Rightarrow> event list \<Rightarrow> string list" where
  "read_from p [] = []"
| "read_from p (Recv q m # evs) = (if q = p then m # read_from p evs else read_from p evs)"
| "read_from p (e # evs) = read_from p evs"

text \<open>The actions a relay task performs: prints, reads and writes.\<close>

fun is_relay_action :: "event \<Rightarrow> bool" where
  "is_relay_action (Print l) = True"
| "is_relay_action (Recv p m) = True"
| "is_relay_action (Send p m) = True"
| "is_relay_action _ = False"

text \<open>The calls of \<open>websockets.connect\<close> in a run.\<close>

fun is_Connect :: "event \<Rightarrow> bool" where
  "is_Connect (Connect url headers r) = True"
| "is_Connect _ = False"

text \<open>
  Whether the upstream connection is open after a sequence of actions: a successful
  handshake opens it, the exit of the \<open>async with\<close> block closes it.
\<close>

fun server_open :: "bool \<Rightarrow> event list \<Rightarrow> bool" where
  "server_open b [] = b"
| "server_open b (Connect url headers None # evs) = server_open True evs"
| "server_open b (ExitServer # evs) = server_open False evs"
| "server_open b (e # evs) = server_open b evs"

subsection \<open>A sample of the library\<close>

text \<open>
  Concrete runs need concrete library functions. The table holds a few texts and the
  values \<open>json.loads\<close> gives for them; the first text the table has for a value is
  what \<open>json.dumps\<close> gives for it. \<open>sample_lib\<close> reads the table in both directions
  and rejects every other text.
\<close>

definition sample_table :: "(string \<times> json) list" where
  "sample_table =
     [(''{\"bearer_token\": \"abc123\"}'', JObj [(''bearer_token'', JStr ''abc123'')]),
      (''{\"x\": 1}'', JObj [(''x'', JInt 1)]),
      (''{\"y\": 2}'', JObj [(''y'', JInt 2)]),
      (''{\"x\":1}'', JObj [(''x'', JInt 1)]),
      (''\"hello\"'', JStr ''hello''),
      (''\"my bearer_token\"'', JStr ''my bearer_token''),
      (''[\"bearer_token\"]'', JArr [JStr ''bearer_token'']),
      (''[]'', JArr []),
      (''5'', JInt 5),
      (''null'', JNull)]"

definition sample_lib :: pylib where
  "sample_lib =
     \<lparr>loads = map_of sample_table,
      dumps = (\<lambda>d. case map_of (map (\<lambda>(s, v). (v, s)) sample_table) d of
                       Some s \<Rightarrow> s | None \<Rightarrow> ''null''),
      py_str = (\<lambda>d. if d = JInt 5 then ''5'' else ''None'')\<rparr>"

text \<open>
  A session in which the handshake succeeds, the client sends one message and closes,
  and the upstream sends one message and closes.
\<close>

definition sample_session :: session where
  "sample_session =
     \<lparr>connect_result = None,
      client_script = ([(''{\"x\": 1}'', SendOk)], None),
      server_script = ([(''{\"y\": 2}'', SendOk)], None),
      schedule = [True, True, False, False],
      lag = 1\<rparr>"

section \<open>Properties\<close>

subsection \<open>One step of the relay\<close>


lemma forward_sent:
  "loads L m = Some d \<Longrightarrow> forward L tgt m SendOk = ([Send tgt (dumps L d)], Continue)"
  by (simp add: forward_def)

lemma forward_closed:
  "loads L m = Some d \<Longrightarrow> is_ConnectionClosed e \<Longrightarrow>
   forward L tgt m (SendRaises e) = ([], Break)"
  by (simp add: forward_def)


lemma proxy_task_returns: "snd (proxy_task L src tgt name s) = None"
  by (simp add: proxy_task_def split: prod.splits option.splits)


lemma proxy_task_break:
  assumes "forward L tgt m a = (evs, Break)"
  shows "proxy_task L src tgt name ((m, a) # rest, ending) = (Recv src m # evs, None)"
  using assms by (simp add: proxy_task_def split: prod.splits option.splits)

subsection \<open>A unit that does not parse\<close>



subsection \<open>A write that fails\<close>




subsection \<open>Units that parse\<close>

lemma written_append: "written p (xs @ ys) = written p xs @ written p ys"
  by (induction p xs rule: written.induct) simp_all

lemma read_from_append: "read_from p (xs @ ys) = read_from p xs @ read_from p ys"
  by (induction p xs rule: read_from.induct) simp_all

lemma relay_loop_all_sent:
  assumes "\<forall>u \<in> set units. \<exists>d. loads L (fst u) = Some d \<and> snd u = SendOk"
  shows "relay_loop L src tgt units ending =
           (concat (map (\<lambda>u. [Recv src (fst u), Send tgt (dumps L (the (loads L (fst u))))])
              units), ending)"
  using assms
proof (induction units)
  case Nil
  show ?case by simp
next
  case (Cons u units)
  obtain m a where u: "u = (m, a)" by (cases u)
  from Cons.prems u obtain d where d: "loads L m = Some d" and a: "a = SendOk" by auto
  from Cons have IH: "relay_loop L src tgt units ending =
           (concat (map (\<lambda>u. [Recv src (fst u), Send tgt (dumps L (the (loads L (fst u))))])
              units), ending)" by simp
  show ?case by (simp add: u a IH forward_sent [OF d] d)
qed

lemma written_relayed:
  "written tgt (concat (map (\<lambda>u. [Recv src (fst u), Send tgt (f u)]) units)) = map f units"
  by (induction units) simp_all

lemma read_relayed:
  "read_from src (concat (map (\<lambda>u. [Recv src (fst u), Send tgt (f u)]) units)) = map fst units"
  by (induction units) simp_all

lemma proxy_task_all_sent:
  assumes "\<forall>u \<in> set units. \<exists>d. loads L (fst u) = Some d \<and> snd u = SendOk"
  shows "\<exists>tl. fst (proxy_task L src tgt name (units, ending)) =
           concat (map (\<lambda>u. [Recv src (fst u), Send tgt (dumps L (the (loads L (fst u))))])
             units) @ tl
           \<and> written tgt tl = [] \<and> read_from src tl = []"
  by (cases ending) (auto simp add: proxy_task_def relay_loop_all_sent [OF assms])

lemma sample_round_trip: "round_trip sample_lib"
  by (auto simp add: round_trip_def sample_lib_def sample_table_def split: if_splits)

text \<open>
  Claim C2, as the code has it. When each of the N units a relay direction reads parses
  as JSON and each write to the target succeeds, the target is written exactly N
  messages, in the order read, the i-th being \<open>json.dumps(json.loads(m))\<close> for the i-th
  message \<open>m\<close> read, not a copy of its bytes; by the round trip of the JSON library it
  decodes to what the i-th message read decodes to.
\<close>

theorem relay_forwards_every_unit:
  assumes "\<forall>u \<in> set units. \<exists>d. loads L (fst u) = Some d \<and> snd u = SendOk"
  shows "read_from src (fst (proxy_task L src tgt name (units, ending))) = map fst units \<and>
         written tgt (fst (proxy_task L src tgt name (units, ending))) =
           map (\<lambda>u. dumps L (the (loads L (fst u)))) units \<and>
         length (written tgt (fst (proxy_task L src tgt name (units, ending)))) = length units \<and>
         (round_trip L \<longrightarrow>
            map (loads L) (written tgt (fst (proxy_task L src tgt name (units, ending)))) =
              map (loads L) (map fst units))"
proof -
  let ?f = "\<lambda>u. dumps L (the (loads L (fst u)))"
  from proxy_task_all_sent [OF assms, of src tgt name ending] obtain tl where
    t: "fst (proxy_task L src tgt name (units, ending)) =
          concat (map (\<lambda>u. [Recv src (fst u), Send tgt (?f u)]) units) @ tl"
    and w: "written tgt tl = []" and r: "read_from src tl = []" by blast
  have W: "written tgt (fst (proxy_task L src tgt name (units, ending))) = map ?f units"
    by (simp add: t written_append w written_relayed)
  have R: "read_from src (fst (proxy_task L src tgt name (units, ending))) = map fst units"
    by (simp add: t read_from_append r read_relayed)
  have D: "map (loads L) (map ?f units) = map (loads L) (map fst units)" if rt: "round_trip L"
  proof -
    have "loads L (?f u) = loads L (fst u)" if "u \<in> set units" for u
    proof -
      from assms that obtain d where d: "loads L (fst u) = Some d" by blast
      with rt have "loads L (dumps L d) = Some d" unfolding round_trip_def by blast
      with d show ?thesis by simp
    qed
    then show ?thesis by simp
  qed
  from W R D show ?thesis by simp
qed

theorem relay_forwards_every_unit_witness:
  "read_from Client (fst (proxy_task sample_lib Client Server ''Client->Server''
      ([(''{\"x\":1}'', SendOk), (''{\"y\": 2}'', SendOk)], None))) =
     [''{\"x\":1}'', ''{\"y\": 2}''] \<and>
   written Server (fst (proxy_task sample_lib Client Server ''Client->Server''
      ([(''{\"x\":1}'', SendOk), (''{\"y\": 2}'', SendOk)], None))) =
     [''{\"x\": 1}'', ''{\"y\": 2}''] \<and>
   map (loads sample_lib) (written Server (fst (proxy_task sample_lib Client Server
      ''Client->Server'' ([(''{\"x\":1}'', SendOk), (''{\"y\": 2}'', SendOk)], None)))) =
     [Some (JObj [(''x'', JInt 1)]), Some (JObj [(''y'', JInt 2)])]"
proof -
  have h: "\<forall>u \<in> set [(''{\"x\":1}'', SendOk), (''{\"y\": 2}'', SendOk)].
             \<exists>d. loads sample_lib (fst u) = Some d \<and> snd u = SendOk"
    by (simp add: sample_lib_def sample_table_def)
  have f: "map (\<lambda>u. dumps sample_lib (the (loads sample_lib (fst u))))
             [(''{\"x\":1}'', SendOk), (''{\"y\": 2}'', SendOk)] =
           [''{\"x\": 1}'', ''{\"y\": 2}'']"
    by (simp add: sample_lib_def sample_table_def)
  have l: "map (loads sample_lib) (map fst [(''{\"x\":1}'', SendOk), (''{\"y\": 2}'', SendOk)]) =
             [Some (JObj [(''x'', JInt 1)]), Some (JObj [(''y'', JInt 2)])]"
    by (simp add: sample_lib_def sample_table_def)
  note t = relay_forwards_every_unit [OF h, of Client Server "''Client->Server''" None]
  from t have 1: "read_from Client (fst (proxy_task sample_lib Client Server ''Client->Server''
      ([(''{\"x\":1}'', SendOk), (''{\"y\": 2}'', SendOk)], None))) =
     [''{\"x\":1}'', ''{\"y\": 2}'']" by simp
  from t have 2: "written Server (fst (proxy_task sample_lib Client Server ''Client->Server''
      ([(''{\"x\":1}'', SendOk), (''{\"y\": 2}'', SendOk)], None))) =
     [''{\"x\": 1}'', ''{\"y\": 2}'']" unfolding f by blast
  from t sample_round_trip have 3: "map (loads sample_lib) (written Server
      (fst (proxy_task sample_lib Client Server ''Client->Server''
         ([(''{\"x\":1}'', SendOk), (''{\"y\": 2}'', SendOk)], None)))) =
     [Some (JObj [(''x'', JInt 1)]), Some (JObj [(''y'', JInt 2)])]" unfolding l by blast
  from 1 2 3 show ?thesis by blast
qed

text \<open>
  Claim C2 as stated fails: two units are read and both parse as JSON, but the write of
  the second one finds the target closed, and the target is written one message.
\<close>

theorem closed_target_receives_less:
  "read_from Client (fst (proxy_task sample_lib Client Server ''Client->Server''
      ([(''{\"x\": 1}'', SendOk), (''{\"y\": 2}'', SendRaises ConnectionClosedError)], None))) =
     [''{\"x\": 1}'', ''{\"y\": 2}''] \<and>
   loads sample_lib ''{\"x\": 1}'' = Some (JObj [(''x'', JInt 1)]) \<and>
   loads sample_lib ''{\"y\": 2}'' = Some (JObj [(''y'', JInt 2)]) \<and>
   written Server (fst (proxy_task sample_lib Client Server ''Client->Server''
      ([(''{\"x\": 1}'', SendOk), (''{\"y\": 2}'', SendRaises ConnectionClosedError)], None))) =
     [''{\"x\": 1}'']"
  by (simp add: proxy_task_def forward_def sample_lib_def sample_table_def)

subsection \<open>The two tasks of a session\<close>

lemma gather_result:
  "gather sched n (xs, r1) (ys, r2) = (evs, r, bg) \<Longrightarrow>
   evs @ bg \<in> shuffles xs ys \<and> (r = None \<longrightarrow> r1 = None \<and> r2 = None \<and> bg = []) \<and>
   (\<forall>e. r = Some e \<longrightarrow> r1 = Some e \<or> r2 = Some e)"
proof (induction sched n "(xs, r1)" "(ys, r2)" arbitrary: xs ys evs rule: gather.induct)
  case (1 sched lag e ys)
  then show ?case by auto
next
  case (2 sched lag x xs e)
  then show ?case by auto
next
  case (3 sched lag ys)
  then show ?case by auto
next
  case (4 sched lag x xs)
  then show ?case by auto
next
  case (5 lag x xs y ys)
  then show ?case by (auto split: prod.splits)
next
  case (6 b bs lag x xs y ys)
  then show ?case by (auto split: prod.splits if_splits)
qed

lemma proxy_session_failed:
  "proxy_session url hs (Some e) sched n t1 t2 =
     \<lparr>trace = [Connect url hs (Some e), Print (ProxyError e)], raised = None, background = []\<rparr>"
  by (simp add: proxy_session_def)

lemma proxy_session_joined:
  "\<exists>evs. proxy_session url hs None sched n (xs, None) (ys, None) =
           \<lparr>trace = Connect url hs None # evs @ [ExitServer], raised = None, background = []\<rparr> \<and>
         evs \<in> shuffles xs ys"
proof -
  obtain evs r bg where g: "gather sched n (xs, None) (ys, None) = (evs, r, bg)"
    by (cases "gather sched n (xs, None) (ys, None)") auto
  from gather_result [OF g] have "r = None" and "bg = []" and "evs \<in> shuffles xs ys"
    by (cases r; simp)+
  with g show ?thesis by (simp add: proxy_session_def)
qed



lemma proxy_session_exit:
  "raised (proxy_session url hs h sched n t1 t2) = None \<and>
   (h = None \<longrightarrow> (\<exists>evs. trace (proxy_session url hs h sched n t1 t2) = evs @ [ExitServer]))"
proof (cases h)
  case None
  obtain evs r bg where g: "gather sched n t1 t2 = (evs, r, bg)"
    by (cases "gather sched n t1 t2") auto
  show ?thesis
  proof (cases r)
    case None
    with g \<open>h = None\<close> have
      "proxy_session url hs h sched n t1 t2 =
         \<lparr>trace = (Connect url hs None # evs) @ [ExitServer], raised = None, background = bg\<rparr>"
      by (simp add: proxy_session_def)
    then show ?thesis by (metis run.select_convs(1,2))
  next
    case (Some e)
    with g \<open>h = None\<close> have
      "proxy_session url hs h sched n t1 t2 =
         \<lparr>trace = (Connect url hs None # evs @ [Print (TaskError e)]) @ [ExitServer],
          raised = None, background = bg\<rparr>"
      by (simp add: proxy_session_def)
    then show ?thesis by (metis run.select_convs(1,2))
  qed
next
  case (Some e)
  then show ?thesis by (simp add: proxy_session_failed)
qed

lemma forward_actions: "e \<in> set (fst (forward L tgt m a)) \<Longrightarrow> is_relay_action e"
  by (auto simp: forward_def split: option.splits send_result.splits if_splits)

lemma relay_loop_actions:
  "e \<in> set (fst (relay_loop L src tgt units ending)) \<Longrightarrow> is_relay_action e"
proof (induction units arbitrary: e)
  case Nil
  then show ?case by simp
next
  case (Cons u units)
  obtain m a where u: "u = (m, a)" by (cases u)
  obtain evs f where f: "forward L tgt m a = (evs, f)" by (cases "forward L tgt m a")
  have evs: "\<And>x. x \<in> set evs \<Longrightarrow> is_relay_action x"
    using forward_actions [of _ L tgt m a] f by simp
  show ?case
  proof (cases f)
    case Break
    with Cons.prems u f evs show ?thesis by auto
  next
    case Continue
    with Cons.prems u f evs Cons.IH show ?thesis
      by (auto split: prod.splits)
  qed
qed

lemma proxy_task_actions:
  "e \<in> set (fst (proxy_task L src tgt name s)) \<Longrightarrow> is_relay_action e"
  using relay_loop_actions [of _ L src tgt "fst s" "snd s"]
  by (auto simp: proxy_task_def split: prod.splits option.splits if_splits)

lemma create_proxy_failed:
  "connect_result S = Some e \<Longrightarrow>
   create_proxy L S tok =
     \<lparr>trace = [Connect SERVICE_URL [(''Content-Type'', ''application/json''),
                 (''Authorization'', ''Bearer '' @ format_value L tok)] (Some e),
               Print (ProxyError e)],
      raised = None, background = []\<rparr>"
  by (simp add: create_proxy_def proxy_session_failed)

lemma create_proxy_connected:
  assumes "connect_result S = None"
  shows "\<exists>evs. create_proxy L S tok =
           \<lparr>trace = Connect SERVICE_URL [(''Content-Type'', ''application/json''),
                 (''Authorization'', ''Bearer '' @ format_value L tok)] None # evs @ [ExitServer],
            raised = None, background = []\<rparr> \<and>
          evs \<in> shuffles (fst (proxy_task L Client Server ''Client->Server'' (client_script S)))
                  (fst (proxy_task L Server Client ''Server->Client'' (server_script S)))"
proof -
  let ?a = "proxy_task L Client Server ''Client->Server'' (client_script S)"
  let ?b = "proxy_task L Server Client ''Server->Client'' (server_script S)"
  have a: "?a = (fst ?a, None)" using proxy_task_returns [of L Client Server _ "client_script S"]
    by (metis prod.collapse)
  have b: "?b = (fst ?b, None)" using proxy_task_returns [of L Server Client _ "server_script S"]
    by (metis prod.collapse)
  have c: "create_proxy L S tok =
             proxy_session SERVICE_URL [(''Content-Type'', ''application/json''),
                 (''Authorization'', ''Bearer '' @ format_value L tok)] None
               (schedule S) (lag S) (fst ?a, None) (fst ?b, None)"
    using assms a b by (simp add: create_proxy_def)
  show ?thesis unfolding c by (rule proxy_session_joined)
qed

lemma create_proxy_raised: "raised (create_proxy L S tok) = None"
proof (cases "connect_result S")
  case None
  from create_proxy_connected [OF None, of L tok] show ?thesis by auto
next
  case (Some e)
  then show ?thesis by (simp add: create_proxy_failed)
qed

lemma create_proxy_background: "background (create_proxy L S tok) = []"
proof (cases "connect_result S")
  case None
  from create_proxy_connected [OF None, of L tok] show ?thesis by auto
next
  case (Some e)
  then show ?thesis by (simp add: create_proxy_failed)
qed

lemma server_open_append: "server_open b (xs @ ys) = server_open (server_open b xs) ys"
  by (induction b xs rule: server_open.induct) simp_all

lemma server_open_relay: "\<forall>e \<in> set evs. is_relay_action e \<Longrightarrow> server_open b evs = b"
  by (induction b evs rule: server_open.induct) simp_all

lemma filter_Connect_relay: "\<forall>e \<in> set evs. is_relay_action e \<Longrightarrow> filter is_Connect evs = []"
proof (induction evs)
  case Nil
  show ?case by simp
next
  case (Cons e evs)
  then show ?case by (cases e) simp_all
qed

lemma session_actions:
  assumes "evs \<in> shuffles (fst (proxy_task L Client Server n1 s1))
                          (fst (proxy_task L Server Client n2 s2))"
  shows "\<forall>e \<in> set evs. is_relay_action e"
proof
  fix e assume "e \<in> set evs"
  then have "e \<in> set (fst (proxy_task L Client Server n1 s1)) \<or>
             e \<in> set (fst (proxy_task L Server Client n2 s2))"
    using set_shuffles [OF assms] by simp
  then show "is_relay_action e" by (blast intro: proxy_task_actions)
qed

lemma server_open_exit: "\<not> server_open b (evs @ [ExitServer])"
  by (simp add: server_open_append)






subsection \<open>The lifetime of the upstream connection\<close>

text \<open>
  Claim C8. No exception escapes \<open>create_proxy\<close>, and when it returns the upstream
  connection is not open: after a successful handshake the connection is open until
  the last action of the run, which is the exit of the \<open>async with\<close> block; after a
  failed handshake it was never opened. The same holds on every path of the \<open>try\<close>
  statement for any two tasks, also when a task raises and the handler of the inner
  \<open>try\<close> runs: nothing is raised further, and the exit of the block is the last
  action.
\<close>

theorem create_proxy_releases_upstream:
  "raised (create_proxy L S tok) = None \<and>
   \<not> server_open False (trace (create_proxy L S tok)) \<and>
   (connect_result S = None \<longrightarrow>
      (\<exists>evs. trace (create_proxy L S tok) = evs @ [ExitServer] \<and> server_open False evs)) \<and>
   raised (proxy_session url hs h sched n t1 t2) = None \<and>
   \<not> server_open False (trace (proxy_session url hs h sched n t1 t2)) \<and>
   (h = None \<longrightarrow> (\<exists>evs. trace (proxy_session url hs h sched n t1 t2) = evs @ [ExitServer]))"
proof -
  have A: "raised (create_proxy L S tok) = None \<and>
   \<not> server_open False (trace (create_proxy L S tok)) \<and>
   (connect_result S = None \<longrightarrow>
      (\<exists>evs. trace (create_proxy L S tok) = evs @ [ExitServer] \<and> server_open False evs))"
  proof (cases "connect_result S")
    case None
    from create_proxy_connected [OF None, of L tok] obtain evs where
      c: "create_proxy L S tok =
           \<lparr>trace = Connect SERVICE_URL [(''Content-Type'', ''application/json''),
                 (''Authorization'', ''Bearer '' @ format_value L tok)] None # evs @ [ExitServer],
            raised = None, background = []\<rparr>"
      and s: "evs \<in> shuffles
                (fst (proxy_task L Client Server ''Client->Server'' (client_script S)))
                (fst (proxy_task L Server Client ''Server->Client'' (server_script S)))"
      by blast
    have o: "server_open True evs" using server_open_relay [OF session_actions [OF s]] by simp
    let ?pre = "Connect SERVICE_URL [(''Content-Type'', ''application/json''),
                   (''Authorization'', ''Bearer '' @ format_value L tok)] None # evs"
    have "trace (create_proxy L S tok) = ?pre @ [ExitServer]" using c by simp
    moreover have "server_open False ?pre" using o by simp
    moreover have "\<not> server_open False (?pre @ [ExitServer])" by (rule server_open_exit)
    ultimately show ?thesis using c None by auto
  next
    case (Some e)
    then show ?thesis by (simp add: create_proxy_failed)
  qed
  have B: "raised (proxy_session url hs h sched n t1 t2) = None \<and>
     (h = None \<longrightarrow> (\<exists>evs. trace (proxy_session url hs h sched n t1 t2) = evs @ [ExitServer]))"
    by (rule proxy_session_exit)
  have C: "\<not> server_open False (trace (proxy_session url hs h sched n t1 t2))"
  proof (cases h)
    case None
    with B obtain evs where "trace (proxy_session url hs h sched n t1 t2) = evs @ [ExitServer]"
      by blast
    then show ?thesis by (simp add: server_open_exit)
  next
    case (Some e)
    then show ?thesis by (simp add: proxy_session_failed)
  qed
  from A B C show ?thesis by blast
qed

theorem create_proxy_releases_upstream_witness:
  "raised (create_proxy sample_lib sample_session (JStr ''abc123'')) = None \<and>
   \<not> server_open False (trace (create_proxy sample_lib sample_session (JStr ''abc123''))) \<and>
   (\<exists>evs. trace (create_proxy sample_lib sample_session (JStr ''abc123'')) = evs @ [ExitServer] \<and>
          server_open False evs) \<and>
   raised (proxy_session SERVICE_URL [] None [] 1 ([], Some (OtherError ''boom''))
             ([Recv Server ''{\"y\": 2}'', Send Client ''{\"y\": 2}''], None)) = None \<and>
   \<not> server_open False (trace (proxy_session SERVICE_URL [] None [] 1
             ([], Some (OtherError ''boom''))
             ([Recv Server ''{\"y\": 2}'', Send Client ''{\"y\": 2}''], None))) \<and>
   (\<exists>evs. trace (proxy_session SERVICE_URL [] None [] 1 ([], Some (OtherError ''boom''))
             ([Recv Server ''{\"y\": 2}'', Send Client ''{\"y\": 2}''], None)) =
          evs @ [ExitServer])"
proof -
  have h: "connect_result sample_session = None" by (simp add: sample_session_def)
  from create_proxy_releases_upstream [where L = sample_lib and S = sample_session
      and tok = "JStr ''abc123''" and url = SERVICE_URL and hs = "[]"
      and h = "None :: exn option" and sched = "[]" and n = 1
      and ?t1.0 = "([], Some (OtherError ''boom''))"
      and ?t2.0 = "([Recv Server ''{\"y\": 2}'', Send Client ''{\"y\": 2}''], None)"] h
  show ?thesis by blast
qed

subsection \<open>The first message\<close>

lemma handle_client_session:
  assumes "first = Arrives t m" and "t \<le> 5" and "loads L m = Some (JObj kvs)"
    and "map_of kvs ''bearer_token'' = Some v"
  shows "handle_client L first S =
           \<lparr>trace = Print NewConnection # Recv Client m # trace (create_proxy L S v),
            raised = None, background = []\<rparr>"
proof -
  have "''bearer_token'' \<in> fst ` set kvs"
    using assms(4) by (metis map_of_eq_None_iff option.distinct(1))
  then show ?thesis
    using assms by (simp add: handle_client_def authenticate_def Let_def create_proxy_raised
        create_proxy_background)
qed

lemma handle_client_missing:
  assumes "first = Arrives t m" and "t \<le> 5" and "loads L m = Some (JObj kvs)"
    and "map_of kvs ''bearer_token'' = None"
  shows "handle_client L first S =
           \<lparr>trace = [Print NewConnection, Recv Client m, CloseClient 1008 ''Bearer token missing''],
            raised = None, background = []\<rparr>"
proof -
  have "''bearer_token'' \<notin> fst ` set kvs"
    using assms(4) by (simp add: map_of_eq_None_iff)
  then show ?thesis
    using assms by (simp add: handle_client_def authenticate_def)
qed

lemma handle_client_not_object:
  assumes "first = Arrives t m" and "t \<le> 5" and "loads L m = Some d" and "\<forall>kvs. d \<noteq> JObj kvs"
  shows "handle_client L first S =
           \<lparr>trace = Print NewConnection # Recv Client m #
              (if (\<exists>s. d = JStr s \<and> \<not> sublist ''bearer_token'' s) \<or>
                  (\<exists>xs. d = JArr xs \<and> JStr ''bearer_token'' \<notin> set xs)
               then [CloseClient 1008 ''Bearer token missing'']
               else [Print (Error TypeError), CloseClient 1011 ''Internal error'']),
            raised = None, background = []\<rparr>"
  using assms by (cases d) (simp_all add: handle_client_def authenticate_def)

lemma handle_client_timeout:
  assumes "first = Never \<or> (\<exists>t m. first = Arrives t m \<and> 5 < t)"
  shows "handle_client L first S =
           \<lparr>trace = [Print NewConnection, Print (Error TimeoutError),
                     CloseClient 1011 ''Internal error''],
            raised = None, background = []\<rparr>"
  using assms by (auto simp add: handle_client_def authenticate_def)

lemma handle_client_malformed:
  assumes "first = Arrives t m" and "t \<le> 5" and "loads L m = None"
  shows "handle_client L first S =
           \<lparr>trace = [Print NewConnection, Recv Client m, Print (Error JSONDecodeError),
                     CloseClient 1011 ''Internal error''],
            raised = None, background = []\<rparr>"
  using assms by (simp add: handle_client_def authenticate_def)

lemma handle_client_read_fails:
  assumes "first = Fails t e"
  shows "handle_client L first S =
           \<lparr>trace = [Print NewConnection, Print (Error (if t \<le> 5 then e else TimeoutError)),
                     CloseClient 1011 ''Internal error''],
            raised = None, background = []\<rparr>"
  using assms by (simp add: handle_client_def authenticate_def)

lemma create_proxy_dials_once:
  "filter is_Connect (trace (create_proxy L S v)) =
     [Connect SERVICE_URL [(''Content-Type'', ''application/json''),
        (''Authorization'', ''Bearer '' @ format_value L v)] (connect_result S)]"
proof (cases "connect_result S")
  case None
  from create_proxy_connected [OF None, of L v] obtain evs where
    c: "create_proxy L S v =
           \<lparr>trace = Connect SERVICE_URL [(''Content-Type'', ''application/json''),
                 (''Authorization'', ''Bearer '' @ format_value L v)] None # evs @ [ExitServer],
            raised = None, background = []\<rparr>"
    and s: "evs \<in> shuffles (fst (proxy_task L Client Server ''Client->Server'' (client_script S)))
                  (fst (proxy_task L Server Client ''Server->Client'' (server_script S)))"
    by blast
  show ?thesis using c None filter_Connect_relay [OF session_actions [OF s]] by simp
next
  case (Some e)
  then show ?thesis by (simp add: create_proxy_failed)
qed


lemma Connect_in_trace:
  assumes "i < length tr" and "is_Connect (tr ! i)"
  shows "filter is_Connect tr \<noteq> []"
  using assms by (metis filter_empty_conv nth_mem)

text \<open>
  Claim C1. When the first message arrives in time and decodes to an object with the
  field \<open>bearer_token\<close>, the run calls \<open>websockets.connect\<close> exactly once, on the
  fixed URL, with the headers \<open>Content-Type: application/json\<close> and
  \<open>Authorization: Bearer\<close> followed by the value of the field (a string as it is, any
  other value as \<open>str()\<close> prints it).
\<close>

theorem handle_client_dials_with_token:
  assumes "first = Arrives t m" and "t \<le> 5" and "loads L m = Some (JObj kvs)"
    and "map_of kvs ''bearer_token'' = Some v"
  shows "filter is_Connect (trace (handle_client L first S)) =
           [Connect SERVICE_URL
              [(''Content-Type'', ''application/json''),
               (''Authorization'',
                  ''Bearer '' @ (case v of JStr token \<Rightarrow> token | _ \<Rightarrow> py_str L v))]
              (connect_result S)]"
proof -
  have "format_value L v = (case v of JStr token \<Rightarrow> token | _ \<Rightarrow> py_str L v)"
    by (simp add: format_value_def)
  then show ?thesis
    using handle_client_session [OF assms, of S] create_proxy_dials_once [of L S v] by simp
qed

theorem handle_client_dials_with_token_witness:
  "filter is_Connect (trace (handle_client sample_lib
      (Arrives 1 ''{\"bearer_token\": \"abc123\"}'') sample_session)) =
     [Connect SERVICE_URL
        [(''Content-Type'', ''application/json''), (''Authorization'', ''Bearer abc123'')] None]"
proof -
  have t: "(1::real) \<le> 5" by simp
  have l: "loads sample_lib ''{\"bearer_token\": \"abc123\"}'' =
             Some (JObj [(''bearer_token'', JStr ''abc123'')])"
    by (simp add: sample_lib_def sample_table_def)
  have k: "map_of [(''bearer_token'', JStr ''abc123'')] ''bearer_token'' = Some (JStr ''abc123'')"
    by simp
  have c: "connect_result sample_session = None" by (simp add: sample_session_def)
  show ?thesis
    using handle_client_dials_with_token [OF refl t l k, of sample_session] c by simp
qed

text \<open>
  Claim C3. When the first message arrives in time and decodes to an object without
  the field \<open>bearer_token\<close>, the handler closes the client connection with code 1008
  and reason \<open>Bearer token missing\<close>, does nothing else, and never calls
  \<open>websockets.connect\<close>.
\<close>

theorem handle_client_token_missing:
  assumes "first = Arrives t m" and "t \<le> 5" and "loads L m = Some (JObj kvs)"
    and "map_of kvs ''bearer_token'' = None"
  shows "trace (handle_client L first S) =
           [Print NewConnection, Recv Client m, CloseClient 1008 ''Bearer token missing''] \<and>
         filter is_Connect (trace (handle_client L first S)) = [] \<and>
         raised (handle_client L first S) = None \<and> background (handle_client L first S) = []"
  using handle_client_missing [OF assms, of S] by simp

theorem handle_client_token_missing_witness:
  "trace (handle_client sample_lib (Arrives 1 ''{\"x\": 1}'') sample_session) =
     [Print NewConnection, Recv Client ''{\"x\": 1}'', CloseClient 1008 ''Bearer token missing''] \<and>
   filter is_Connect (trace (handle_client sample_lib (Arrives 1 ''{\"x\": 1}'') sample_session))
     = []"
proof -
  have t: "(1::real) \<le> 5" by simp
  have l: "loads sample_lib ''{\"x\": 1}'' = Some (JObj [(''x'', JInt 1)])"
    by (simp add: sample_lib_def sample_table_def)
  have k: "map_of [(''x'', JInt 1)] ''bearer_token'' = None" by simp
  show ?thesis
    using handle_client_token_missing [OF refl t l k, of sample_session] by simp
qed

text \<open>
  Claim C4. When no first message arrives within 5 seconds, or the first message does
  not parse as JSON, the handler prints the error and closes the client connection with
  code 1011 and reason \<open>Internal error\<close>; it never calls \<open>websockets.connect\<close>.
\<close>

theorem handle_client_internal_error:
  "(first = Never \<or> (\<exists>t m. first = Arrives t m \<and> 5 < t) \<longrightarrow>
      trace (handle_client L first S) =
        [Print NewConnection, Print (Error TimeoutError), CloseClient 1011 ''Internal error'']) \<and>
   (\<forall>t m. first = Arrives t m \<and> t \<le> 5 \<and> loads L m = None \<longrightarrow>
      trace (handle_client L first S) =
        [Print NewConnection, Recv Client m, Print (Error JSONDecodeError),
         CloseClient 1011 ''Internal error'']) \<and>
   (first = Never \<or> (\<exists>t m. first = Arrives t m \<and> (5 < t \<or> loads L m = None)) \<longrightarrow>
      filter is_Connect (trace (handle_client L first S)) = [] \<and>
      raised (handle_client L first S) = None \<and> background (handle_client L first S) = [])"
proof (intro conjI impI allI)
  assume "first = Never \<or> (\<exists>t m. first = Arrives t m \<and> 5 < t)"
  from handle_client_timeout [OF this, of L S]
  show "trace (handle_client L first S) =
        [Print NewConnection, Print (Error TimeoutError), CloseClient 1011 ''Internal error'']"
    by simp
next
  fix t m assume "first = Arrives t m \<and> t \<le> 5 \<and> loads L m = None"
  then show "trace (handle_client L first S) =
        [Print NewConnection, Recv Client m, Print (Error JSONDecodeError),
         CloseClient 1011 ''Internal error'']"
    using handle_client_malformed [of first t m L S] by simp
next
  assume a: "first = Never \<or> (\<exists>t m. first = Arrives t m \<and> (5 < t \<or> loads L m = None))"
  then consider "first = Never \<or> (\<exists>t m. first = Arrives t m \<and> 5 < t)"
    | t m where "first = Arrives t m" "t \<le> 5" "loads L m = None"
    by (metis not_le)
  then have r: "filter is_Connect (trace (handle_client L first S)) = [] \<and>
      raised (handle_client L first S) = None \<and> background (handle_client L first S) = []"
  proof cases
    case 1
    from handle_client_timeout [OF this, of L S] show ?thesis by simp
  next
    case 2
    from handle_client_malformed [OF this, of S] show ?thesis by simp
  qed
  from r show "filter is_Connect (trace (handle_client L first S)) = []" by simp
  from r show "raised (handle_client L first S) = None" by simp
  from r show "background (handle_client L first S) = []" by simp
qed

theorem handle_client_internal_error_witness:
  "trace (handle_client sample_lib Never sample_session) =
     [Print NewConnection, Print (Error TimeoutError), CloseClient 1011 ''Internal error''] \<and>
   trace (handle_client sample_lib (Arrives 6 ''{\"bearer_token\": \"abc123\"}'') sample_session) =
     [Print NewConnection, Print (Error TimeoutError), CloseClient 1011 ''Internal error''] \<and>
   trace (handle_client sample_lib (Arrives 1 ''oops'') sample_session) =
     [Print NewConnection, Recv Client ''oops'', Print (Error JSONDecodeError),
      CloseClient 1011 ''Internal error''] \<and>
   filter is_Connect (trace (handle_client sample_lib (Arrives 1 ''oops'') sample_session)) = []"
proof -
  have l: "loads sample_lib ''oops'' = None" by (simp add: sample_lib_def sample_table_def)
  have a: "trace (handle_client sample_lib Never sample_session) =
     [Print NewConnection, Print (Error TimeoutError), CloseClient 1011 ''Internal error'']"
    using handle_client_internal_error [of Never sample_lib sample_session] by simp
  have b: "trace (handle_client sample_lib (Arrives 6 ''{\"bearer_token\": \"abc123\"}'')
             sample_session) =
     [Print NewConnection, Print (Error TimeoutError), CloseClient 1011 ''Internal error'']"
    using handle_client_internal_error
      [of "Arrives 6 ''{\"bearer_token\": \"abc123\"}''" sample_lib sample_session] by simp
  have c: "trace (handle_client sample_lib (Arrives 1 ''oops'') sample_session) =
     [Print NewConnection, Recv Client ''oops'', Print (Error JSONDecodeError),
      CloseClient 1011 ''Internal error''] \<and>
   filter is_Connect (trace (handle_client sample_lib (Arrives 1 ''oops'') sample_session)) = []"
    using handle_client_internal_error [of "Arrives 1 ''oops''" sample_lib sample_session] l
    by simp
  from a b c show ?thesis by simp
qed

subsection \<open>Before the upstream is dialled\<close>

lemma handle_client_dials_only_in_session:
  assumes "filter is_Connect (trace (handle_client L first S)) \<noteq> []"
  shows "\<exists>t m kvs v. first = Arrives t m \<and> t \<le> 5 \<and> loads L m = Some (JObj kvs) \<and>
           map_of kvs ''bearer_token'' = Some v"
proof (cases first)
  case Never
  with assms handle_client_timeout [of first L S] show ?thesis by simp
next
  case (Fails t e)
  with assms handle_client_read_fails [OF Fails, of L S] show ?thesis by simp
next
  case (Arrives t m)
  show ?thesis
  proof (cases "t \<le> 5")
    case False
    with Arrives have "first = Never \<or> (\<exists>t m. first = Arrives t m \<and> 5 < t)" by auto
    from handle_client_timeout [OF this, of L S] assms show ?thesis by simp
  next
    case True
    show ?thesis
    proof (cases "loads L m")
      case None
      from handle_client_malformed [OF Arrives True None, of S] assms show ?thesis by simp
    next
      case (Some d)
      show ?thesis
      proof (cases "\<exists>kvs. d = JObj kvs")
        case False
        then have "\<forall>kvs. d \<noteq> JObj kvs" by simp
        from handle_client_not_object [OF Arrives True Some this, of S] assms
        show ?thesis by (simp split: if_splits)
      next
        case True
        then obtain kvs where d: "d = JObj kvs" by blast
        show ?thesis
        proof (cases "map_of kvs ''bearer_token''")
          case None
          from handle_client_missing [OF Arrives \<open>t \<le> 5\<close> Some [unfolded d] None, of S] assms
          show ?thesis by simp
        next
          case (Some v)
          with Arrives \<open>t \<le> 5\<close> \<open>loads L m = Some d\<close> d show ?thesis by simp
        qed
      qed
    qed
  qed
qed

text \<open>
  Claim C9. Whenever a run of the handler calls \<open>websockets.connect\<close>, the first
  message of the client has arrived within the timeout and has been parsed
  successfully, and the read of that message comes earlier in the run than the call.
\<close>

theorem handle_client_dials_after_first_message:
  assumes "i < length (trace (handle_client L first S))"
    and "is_Connect (trace (handle_client L first S) ! i)"
  shows "\<exists>t m d. first = Arrives t m \<and> t \<le> 5 \<and> loads L m = Some d \<and>
           (\<exists>j<i. trace (handle_client L first S) ! j = Recv Client m)"
proof -
  from handle_client_dials_only_in_session [OF Connect_in_trace [OF assms]]
  obtain t m kvs v where f: "first = Arrives t m" and t: "t \<le> 5"
    and l: "loads L m = Some (JObj kvs)" and k: "map_of kvs ''bearer_token'' = Some v"
    by blast
  from handle_client_session [OF f t l k, of S]
  have tr: "trace (handle_client L first S) =
              Print NewConnection # Recv Client m # trace (create_proxy L S v)" by simp
  have "i \<noteq> 0" using assms(2) tr by (cases i) simp_all
  moreover have "i \<noteq> 1" using assms(2) tr by auto
  ultimately have "1 < i" by simp
  moreover have "trace (handle_client L first S) ! 1 = Recv Client m" using tr by simp
  ultimately show ?thesis using f t l by blast
qed

theorem handle_client_dials_after_first_message_witness:
  "is_Connect (trace (handle_client sample_lib
      (Arrives 1 ''{\"bearer_token\": \"abc123\"}'') sample_session) ! 2) \<and>
   (\<exists>t m d. Arrives 1 ''{\"bearer_token\": \"abc123\"}'' = Arrives t m \<and> t \<le> 5 \<and>
      loads sample_lib m = Some d \<and>
      (\<exists>j<2. trace (handle_client sample_lib
          (Arrives 1 ''{\"bearer_token\": \"abc123\"}'') sample_session) ! j = Recv Client m))"
proof -
  have t: "(1::real) \<le> 5" by simp
  have l: "loads sample_lib ''{\"bearer_token\": \"abc123\"}'' =
             Some (JObj [(''bearer_token'', JStr ''abc123'')])"
    by (simp add: sample_lib_def sample_table_def)
  have k: "map_of [(''bearer_token'', JStr ''abc123'')] ''bearer_token'' = Some (JStr ''abc123'')"
    by simp
  have c: "connect_result sample_session = None" by (simp add: sample_session_def)
  obtain evs where e: "trace (create_proxy sample_lib sample_session (JStr ''abc123'')) =
      Connect SERVICE_URL [(''Content-Type'', ''application/json''),
        (''Authorization'', ''Bearer '' @ format_value sample_lib (JStr ''abc123''))] None #
      evs @ [ExitServer]"
    using create_proxy_connected [OF c, of sample_lib "JStr ''abc123''"] by auto
  have tr: "trace (handle_client sample_lib (Arrives 1 ''{\"bearer_token\": \"abc123\"}'')
              sample_session) =
            Print NewConnection # Recv Client ''{\"bearer_token\": \"abc123\"}'' #
            Connect SERVICE_URL [(''Content-Type'', ''application/json''),
              (''Authorization'', ''Bearer '' @ format_value sample_lib (JStr ''abc123''))] None #
            evs @ [ExitServer]"
    using handle_client_session [OF refl t l k, of sample_session] e by simp
  have i: "2 < length (trace (handle_client sample_lib
      (Arrives 1 ''{\"bearer_token\": \"abc123\"}'') sample_session))" using tr by simp
  have d: "is_Connect (trace (handle_client sample_lib
      (Arrives 1 ''{\"bearer_token\": \"abc123\"}'') sample_session) ! 2)" using tr by simp
  from handle_client_dials_after_first_message [OF i d] d show ?thesis by blast
qed

lemma sample_substring: "sublist ''bearer_token'' ''my bearer_token''"
  by (simp add: sublist_code prefix_code)

lemma sample_no_substring: "\<not> sublist ''bearer_token'' ''hello''"
  by (simp add: sublist_code prefix_code)

text \<open>
  Claim C10, as the code has it. A run calls \<open>websockets.connect\<close> only when the
  first message decodes to an object that has the key \<open>bearer_token\<close>. When the
  message decodes to a value that is not an object, no connection is attempted, and the
  close depends on the membership test: for a string without the substring
  \<open>bearer_token\<close> and for an array without the element \<open>bearer_token\<close> the test is
  false and the client is closed with code 1008 and reason \<open>Bearer token missing\<close>;
  for a string with the substring and an array with the element the indexing raises,
  for a number, a boolean and null the test itself raises, and the client is closed
  with code 1011 and reason \<open>Internal error\<close>.
\<close>

theorem handle_client_non_object:
  assumes "first = Arrives t m" and "t \<le> 5" and "loads L m = Some d"
  shows "(filter is_Connect (trace (handle_client L first S)) \<noteq> [] \<longrightarrow>
            (\<exists>kvs. d = JObj kvs \<and> ''bearer_token'' \<in> fst ` set kvs)) \<and>
         ((\<forall>kvs. d \<noteq> JObj kvs) \<longrightarrow>
            trace (handle_client L first S) =
              Print NewConnection # Recv Client m #
                (if (\<exists>s. d = JStr s \<and> \<not> sublist ''bearer_token'' s) \<or>
                    (\<exists>xs. d = JArr xs \<and> JStr ''bearer_token'' \<notin> set xs)
                 then [CloseClient 1008 ''Bearer token missing'']
                 else [Print (Error TypeError), CloseClient 1011 ''Internal error'']) \<and>
            filter is_Connect (trace (handle_client L first S)) = [])"
proof (intro conjI impI)
  assume "filter is_Connect (trace (handle_client L first S)) \<noteq> []"
  from handle_client_dials_only_in_session [OF this] assms
  obtain kvs v where "d = JObj kvs" and "map_of kvs ''bearer_token'' = Some v" by auto
  then show "\<exists>kvs. d = JObj kvs \<and> ''bearer_token'' \<in> fst ` set kvs"
    by (metis map_of_eq_None_iff option.distinct(1))
next
  assume n: "\<forall>kvs. d \<noteq> JObj kvs"
  from handle_client_not_object [OF assms n, of S]
  show "trace (handle_client L first S) =
              Print NewConnection # Recv Client m #
                (if (\<exists>s. d = JStr s \<and> \<not> sublist ''bearer_token'' s) \<or>
                    (\<exists>xs. d = JArr xs \<and> JStr ''bearer_token'' \<notin> set xs)
                 then [CloseClient 1008 ''Bearer token missing'']
                 else [Print (Error TypeError), CloseClient 1011 ''Internal error''])"
    by simp
  from handle_client_not_object [OF assms n, of S]
  show "filter is_Connect (trace (handle_client L first S)) = []"
    by simp
qed

theorem handle_client_non_object_witness:
  "trace (handle_client sample_lib (Arrives 1 ''\"my bearer_token\"'') sample_session) =
     [Print NewConnection, Recv Client ''\"my bearer_token\"'', Print (Error TypeError),
      CloseClient 1011 ''Internal error''] \<and>
   trace (handle_client sample_lib (Arrives 1 ''[\"bearer_token\"]'') sample_session) =
     [Print NewConnection, Recv Client ''[\"bearer_token\"]'', Print (Error TypeError),
      CloseClient 1011 ''Internal error''] \<and>
   trace (handle_client sample_lib (Arrives 1 ''5'') sample_session) =
     [Print NewConnection, Recv Client ''5'', Print (Error TypeError),
      CloseClient 1011 ''Internal error''] \<and>
   trace (handle_client sample_lib (Arrives 1 ''[]'') sample_session) =
     [Print NewConnection, Recv Client ''[]'', CloseClient 1008 ''Bearer token missing'']"
proof -
  have t: "(1::real) \<le> 5" by simp
  have l1: "loads sample_lib ''\"my bearer_token\"'' = Some (JStr ''my bearer_token'')"
    by (simp add: sample_lib_def sample_table_def)
  have l2: "loads sample_lib ''[\"bearer_token\"]'' = Some (JArr [JStr ''bearer_token''])"
    by (simp add: sample_lib_def sample_table_def)
  have l3: "loads sample_lib ''5'' = Some (JInt 5)"
    by (simp add: sample_lib_def sample_table_def)
  have l4: "loads sample_lib ''[]'' = Some (JArr [])"
    by (simp add: sample_lib_def sample_table_def)
  have a: "trace (handle_client sample_lib (Arrives 1 ''\"my bearer_token\"'') sample_session) =
     [Print NewConnection, Recv Client ''\"my bearer_token\"'', Print (Error TypeError),
      CloseClient 1011 ''Internal error'']"
    using handle_client_non_object [OF refl t l1, of sample_session] sample_substring by simp
  have b: "trace (handle_client sample_lib (Arrives 1 ''[\"bearer_token\"]'') sample_session) =
     [Print NewConnection, Recv Client ''[\"bearer_token\"]'', Print (Error TypeError),
      CloseClient 1011 ''Internal error'']"
    using handle_client_non_object [OF refl t l2, of sample_session] by simp
  have c: "trace (handle_client sample_lib (Arrives 1 ''5'') sample_session) =
     [Print NewConnection, Recv Client ''5'', Print (Error TypeError),
      CloseClient 1011 ''Internal error'']"
    using handle_client_non_object [OF refl t l3, of sample_session] by simp
  have d: "trace (handle_client sample_lib (Arrives 1 ''[]'') sample_session) =
     [Print NewConnection, Recv Client ''[]'', CloseClient 1008 ''Bearer token missing'']"
    using handle_client_non_object [OF refl t l4, of sample_session] by simp
  from a b c d show ?thesis by simp
qed

text \<open>
  Claim C10 as stated fails: the first message \<open>"hello"\<close> decodes to a string, not an
  object; the membership test is false, nothing raises, and the client is closed with
  code 1008.
\<close>

theorem string_without_token_closes_1008:
  "loads sample_lib ''\"hello\"'' = Some (JStr ''hello'') \<and>
   handle_client sample_lib (Arrives 1 ''\"hello\"'') sample_session =
     \<lparr>trace = [Print NewConnection, Recv Client ''\"hello\"'',
               CloseClient 1008 ''Bearer token missing''],
      raised = None, background = []\<rparr>"
  by (simp add: handle_client_def authenticate_def sample_lib_def sample_table_def
      sample_no_substring)

end
